theory Spec2Isabelle
  imports Main "HOL-Library.Word"
begin

unbundle bit_operations_syntax

section \<open>Data model of the AArch64 lifting extension\<close>

text \<open>
  The development embeds \<^verbatim>\<open>aarch64_extension.cpp\<close>. The decoder records
  (\<^verbatim>\<open>cs_insn\<close>, \<^verbatim>\<open>cs_arm64\<close>, \<^verbatim>\<open>cs_arm64_op\<close>) and the host's IL builder
  are declared in headers outside the repository; they are modelled here with the
  fields and builder calls the source uses.
\<close>

subsection \<open>Faults\<close>

text \<open>
  Two operations of the source have no defined result on some inputs: a shift by an
  amount outside the width of its left operand, and a read through the instruction
  pointer when the decoder produced no instruction. Both are branches of the model.
\<close>

datatype fault = UndefinedShift | InvalidInstructionRead

subsection \<open>Condition codes\<close>

text \<open>The 17 enumerators of \<^verbatim>\<open>arm64_cc\<close> named by \<^verbatim>\<open>LiftCondition\<close>.\<close>

datatype arm64_cc =
    ARM64_CC_INVALID
  | ARM64_CC_EQ | ARM64_CC_NE | ARM64_CC_HS | ARM64_CC_LO
  | ARM64_CC_MI | ARM64_CC_PL | ARM64_CC_VS | ARM64_CC_VC
  | ARM64_CC_HI | ARM64_CC_LS | ARM64_CC_GE | ARM64_CC_LT
  | ARM64_CC_GT | ARM64_CC_LE
  | ARM64_CC_AL | ARM64_CC_NV

text \<open>
  The host's flag conditions. \<open>LLFC_ULT\<close> and \<open>LLFC_UGT\<close> are enumerators of the
  host that \<^verbatim>\<open>LiftCondition\<close> never returns. The numeric values of both
  enumerations live in the absent headers, so the cast
  \<^verbatim>\<open>(BNLowLevelILFlagCondition) ARM64_CC_x\<close> is kept symbolic as \<open>LLFC_cast x\<close>.
  The closing \<^verbatim>\<open>return (BNLowLevelILFlagCondition) -1\<close> of \<^verbatim>\<open>LiftCondition\<close>
  is reached only by a value that is none of the 17 enumerators, which the datatype
  does not contain.
\<close>

datatype BNLowLevelILFlagCondition =
    LLFC_E | LLFC_NE | LLFC_SLT | LLFC_ULT | LLFC_SLE | LLFC_ULE
  | LLFC_SGE | LLFC_UGE | LLFC_SGT | LLFC_UGT
  | LLFC_NEG | LLFC_POS | LLFC_O | LLFC_NO
  | LLFC_cast arm64_cc

fun LiftCondition :: "arm64_cc \<Rightarrow> BNLowLevelILFlagCondition" where
  "LiftCondition ARM64_CC_EQ = LLFC_E"
| "LiftCondition ARM64_CC_NE = LLFC_NE"
| "LiftCondition ARM64_CC_HS = LLFC_UGE"
| "LiftCondition ARM64_CC_LO = LLFC_ULE"
| "LiftCondition ARM64_CC_MI = LLFC_NEG"
| "LiftCondition ARM64_CC_PL = LLFC_POS"
| "LiftCondition ARM64_CC_VS = LLFC_O"
| "LiftCondition ARM64_CC_VC = LLFC_NO"
| "LiftCondition ARM64_CC_HI = LLFC_UGE"
| "LiftCondition ARM64_CC_LS = LLFC_ULE"
| "LiftCondition ARM64_CC_GE = LLFC_SGE"
| "LiftCondition ARM64_CC_LT = LLFC_SLT"
| "LiftCondition ARM64_CC_GT = LLFC_SGT"
| "LiftCondition ARM64_CC_LE = LLFC_SLE"
| "LiftCondition ARM64_CC_INVALID = LLFC_cast ARM64_CC_INVALID"
| "LiftCondition ARM64_CC_AL = LLFC_cast ARM64_CC_AL"
| "LiftCondition ARM64_CC_NV = LLFC_cast ARM64_CC_NV"

text \<open>
  The condition codes that stand for a flag test: every enumerator except
  \<open>ARM64_CC_INVALID\<close>, \<open>ARM64_CC_AL\<close> and \<open>ARM64_CC_NV\<close>.
\<close>

definition ordinary_codes :: "arm64_cc list" where
  "ordinary_codes =
     [ARM64_CC_EQ, ARM64_CC_NE, ARM64_CC_HS, ARM64_CC_LO, ARM64_CC_MI, ARM64_CC_PL,
      ARM64_CC_VS, ARM64_CC_VC, ARM64_CC_HI, ARM64_CC_LS, ARM64_CC_GE, ARM64_CC_LT,
      ARM64_CC_GT, ARM64_CC_LE]"

subsection \<open>Mask generation\<close>

text \<open>
  \<^verbatim>\<open>template <typename T> T Ones(size_t count)\<close>, for the unsigned types the
  program instantiates it at (\<^verbatim>\<open>uint32_t\<close> and \<^verbatim>\<open>uint64_t\<close>, as \<open>32 word\<close>
  and \<open>64 word\<close>). The first branch is the source's special case
  \<^verbatim>\<open>count == sizeof(T) * 8\<close>; the second is \<^verbatim>\<open>~(~0 << count)\<close>, whose shift is
  defined only for \<open>count\<close> below the width of \<open>T\<close>.
\<close>

definition Ones :: "nat \<Rightarrow> fault + 'a::len word" where
  "Ones count =
     (if count = LENGTH('a) then Inr (NOT 0)
      else if count < LENGTH('a) then Inr (NOT (push_bit count (NOT 0)))
      else Inl UndefinedShift)"

text \<open>
  The operator \<^verbatim>\<open><<\<close> with an \<^verbatim>\<open>int64_t\<close> right operand: defined when the shift
  amount is non-negative and below the width of the left operand.
\<close>

definition shift_left :: "'a::len word \<Rightarrow> 64 word \<Rightarrow> fault + 'a word" where
  "shift_left x amount =
     (if 0 \<le> sint amount \<and> sint amount < int LENGTH('a)
      then Inr (push_bit (nat (sint amount)) x)
      else Inl UndefinedShift)"

text \<open>
  Lines 241 to 246 of \<^verbatim>\<open>LiftBFI\<close>: the 64-bit \<^verbatim>\<open>inclusion_mask\<close>, computed at
  64 bits when \<open>Rd_size\<close> is 8 and at 32 bits (then zero-extended) otherwise. The
  \<^verbatim>\<open>int64_t width\<close> converts to \<^verbatim>\<open>size_t\<close> as \<open>unat\<close>.
\<close>

definition inclusion_mask :: "nat \<Rightarrow> 64 word \<Rightarrow> 64 word \<Rightarrow> fault + 64 word" where
  "inclusion_mask Rd_size width lsb =
     (if Rd_size = 8 then
        (case (Ones (unat width) :: fault + 64 word) of
           Inl f \<Rightarrow> Inl f
         | Inr ones \<Rightarrow> shift_left ones lsb)
      else
        (case (Ones (unat width) :: fault + 32 word) of
           Inl f \<Rightarrow> Inl f
         | Inr ones \<Rightarrow>
             (case shift_left ones lsb of
                Inl f \<Rightarrow> Inl f
              | Inr m \<Rightarrow> Inr (ucast m))))"

subsection \<open>Decoded instructions\<close>

text \<open>
  \<^verbatim>\<open>cs_arm64_op\<close>: the operand kind and the two members of its payload union that
  the lifters read, \<^verbatim>\<open>reg\<close> and \<^verbatim>\<open>imm\<close>. Only the kinds \<^verbatim>\<open>ARM64_OP_REG\<close> and
  \<^verbatim>\<open>ARM64_OP_IMM\<close> are named by the source; every other kind is \<open>ARM64_OP_other\<close>
  with its enumerator value. Field names carry a prefix where the source's name is
  a HOL constant (\<open>type\<close>, \<open>id\<close>, \<open>size\<close>).
\<close>

datatype arm64_op_type = ARM64_OP_REG | ARM64_OP_IMM | ARM64_OP_other nat

record cs_arm64_op =
  op_type :: arm64_op_type
  op_reg :: "32 word"
  op_imm :: "64 word"

text \<open>
  \<^verbatim>\<open>cs_arm64\<close>: the condition code, the operand count and the fixed operand array,
  which has a slot at every index the lifters read.
\<close>

record cs_arm64 =
  cc :: arm64_cc
  op_count :: "8 word"
  operands :: "nat \<Rightarrow> cs_arm64_op"

datatype arm64_insn =
    ARM64_INS_CSINC | ARM64_INS_UMULL | ARM64_INS_CINC | ARM64_INS_BFI | ARM64_INS_ROR
  | ARM64_INS_other nat

text \<open>\<^verbatim>\<open>cs_insn\<close>; \<open>detail_arm64\<close> is \<^verbatim>\<open>instr->detail->arm64\<close>.\<close>

record cs_insn =
  insn_id :: arm64_insn
  address :: "64 word"
  insn_size :: "16 word"
  detail_arm64 :: cs_arm64

subsection \<open>The IL under construction\<close>

text \<open>
  Expressions are the trees the builder calls of the source compose; an
  \<^verbatim>\<open>ExprId\<close> is the tree it denotes. The three labels are the local
  \<^verbatim>\<open>LowLevelILLabel\<close> objects of one lifter call, named as in the source. The
  builder method \<^verbatim>\<open>If\<close> is \<open>If_il\<close>. \<open>SetRegister_handle\<close> is the call
  \<^verbatim>\<open>SetRegister(size, il.Register(..), val)\<close> of line 127, whose register argument
  is the handle of an expression converted to a register number.
\<close>

datatype LowLevelILLabel = assignmentLabel | incrementLabel | afterLabel

datatype il_expr =
    Register nat "32 word"
  | Const nat "64 word"
  | Add nat il_expr il_expr
  | Mult nat il_expr il_expr
  | And nat il_expr il_expr
  | Or nat il_expr il_expr
  | ShiftLeft nat il_expr il_expr
  | RotateRight nat il_expr il_expr
  | FlagCondition BNLowLevelILFlagCondition
  | SetRegister nat "32 word" il_expr
  | SetRegister_handle nat il_expr il_expr
  | If_il il_expr LowLevelILLabel LowLevelILLabel
  | Goto LowLevelILLabel

text \<open>
  The \<^verbatim>\<open>LowLevelILFunction\<close> being built: the instructions added and the labels
  marked so far, in order.
\<close>

datatype il_item = Instruction il_expr | Label LowLevelILLabel

type_synonym LowLevelILFunction = "il_item list"

definition AddInstruction :: "il_expr \<Rightarrow> LowLevelILFunction \<Rightarrow> LowLevelILFunction" where
  "AddInstruction e il = il @ [Instruction e]"

definition MarkLabel :: "LowLevelILLabel \<Rightarrow> LowLevelILFunction \<Rightarrow> LowLevelILFunction" where
  "MarkLabel l il = il @ [Label l]"

subsection \<open>External collaborators\<close>

text \<open>
  What the extension consumes from the decoding engine and from the host, taken as
  parameters: the decoder \<^verbatim>\<open>cs_disasm\<close> (buffer, size, address; all instructions
  of the buffer, none when the first does not decode), \<^verbatim>\<open>cs_reg_name\<close>, the
  register catalog (\<^verbatim>\<open>GetRegisterByName\<close>, the \<^verbatim>\<open>size\<close> of
  \<^verbatim>\<open>GetRegisterInfo\<close>) and the inherited
  \<^verbatim>\<open>ArchitectureHook::GetInstructionLowLevelIL\<close>, which returns its result, the
  length it reports and the IL it leaves. Register resolution is total here: every
  register number has a name and every name an identifier with a size.
\<close>

record host =
  cs_disasm :: "8 word list \<Rightarrow> nat \<Rightarrow> 64 word \<Rightarrow> cs_insn list"
  cs_reg_name :: "32 word \<Rightarrow> string"
  GetRegisterByName :: "string \<Rightarrow> 32 word"
  GetRegisterInfo_size :: "32 word \<Rightarrow> nat"
  base_GetInstructionLowLevelIL ::
    "8 word list \<Rightarrow> 64 word \<Rightarrow> nat \<Rightarrow> LowLevelILFunction \<Rightarrow> bool \<times> nat \<times> LowLevelILFunction"

text \<open>
  \<^verbatim>\<open>this->m_base->GetRegisterByName(cs_reg_name(disassembler.Get(), op.reg))\<close>
\<close>

definition register_of :: "host \<Rightarrow> cs_arm64_op \<Rightarrow> 32 word" where
  "register_of h opnd = GetRegisterByName h (cs_reg_name h (op_reg opnd))"

section \<open>The lifters\<close>

text \<open>
  Each lifter takes the IL built so far and returns its boolean result with the IL
  it leaves.
\<close>

definition LiftCSINC :: "host \<Rightarrow> cs_insn \<Rightarrow> LowLevelILFunction \<Rightarrow> bool \<times> LowLevelILFunction" where
  "LiftCSINC h instr il =
     (let detail = detail_arm64 instr in
      if op_count detail \<noteq> 3 then (False, il)
      else
        let Rd = register_of h (operands detail 0);
            Rn = register_of h (operands detail 1);
            Rm = register_of h (operands detail 2);
            Rd_size = GetRegisterInfo_size h Rd;
            Rn_size = GetRegisterInfo_size h Rn;
            Rm_size = GetRegisterInfo_size h Rm
        in
          if cc detail = ARM64_CC_INVALID \<or> (Rd_size \<noteq> Rn_size \<and> Rn_size \<noteq> Rm_size)
          then (False, il)
          else if cc detail = ARM64_CC_AL \<or> cc detail = ARM64_CC_NV
          then (True,
                AddInstruction
                  (SetRegister_handle Rd_size (Register Rd_size Rd) (Register Rn_size Rn)) il)
          else
            let il1 = AddInstruction
                        (If_il (FlagCondition (LiftCondition (cc detail)))
                           assignmentLabel incrementLabel) il;
                il2 = MarkLabel assignmentLabel il1;
                il3 = AddInstruction (SetRegister Rd_size Rd (Register Rn_size Rn)) il2;
                il4 = AddInstruction (Goto afterLabel) il3;
                il5 = MarkLabel incrementLabel il4;
                il6 = AddInstruction
                        (SetRegister Rd_size Rd
                           (Add Rd_size (Register Rm_size Rm) (Const Rd_size 1))) il5;
                il7 = MarkLabel afterLabel il6
            in (True, il7))"

definition LiftUMULL :: "host \<Rightarrow> cs_insn \<Rightarrow> LowLevelILFunction \<Rightarrow> bool \<times> LowLevelILFunction" where
  "LiftUMULL h instr il =
     (let detail = detail_arm64 instr in
      if op_count detail \<noteq> 3 then (False, il)
      else
        let Xd = register_of h (operands detail 0);
            Wn = register_of h (operands detail 1);
            Wm = register_of h (operands detail 2)
        in (True,
            AddInstruction (SetRegister 8 Xd (Mult 8 (Register 4 Wn) (Register 4 Wm))) il))"

definition LiftCINC :: "host \<Rightarrow> cs_insn \<Rightarrow> LowLevelILFunction \<Rightarrow> bool \<times> LowLevelILFunction" where
  "LiftCINC h instr il =
     (let detail = detail_arm64 instr in
      if op_count detail \<noteq> 2 then (False, il)
      else
        let Rd = register_of h (operands detail 0);
            Rn = register_of h (operands detail 1);
            Rd_size = GetRegisterInfo_size h Rd;
            Rn_size = GetRegisterInfo_size h Rn
        in
          if cc detail = ARM64_CC_INVALID then (False, il)
          else if cc detail = ARM64_CC_AL \<or> cc detail = ARM64_CC_NV
          then (True,
                AddInstruction
                  (SetRegister Rd_size Rd
                     (Add Rd_size (Register Rn_size Rn) (Const Rd_size 1))) il)
          else
            let il1 = AddInstruction
                        (If_il (FlagCondition (LiftCondition (cc detail)))
                           incrementLabel assignmentLabel) il;
                il2 = MarkLabel incrementLabel il1;
                il3 = AddInstruction
                        (SetRegister Rd_size Rd
                           (Add Rd_size (Register Rn_size Rn) (Const Rd_size 1))) il2;
                il4 = AddInstruction (Goto afterLabel) il3;
                il5 = MarkLabel assignmentLabel il4;
                il6 = AddInstruction (SetRegister Rd_size Rd (Register Rn_size Rn)) il5;
                il7 = MarkLabel afterLabel il6
            in (True, il7))"

text \<open>
  In \<^verbatim>\<open>LiftBFI\<close> and \<^verbatim>\<open>LiftROR\<close> the source computes \<^verbatim>\<open>Rn_size\<close> as
  \<^verbatim>\<open>GetRegisterInfo(Rd).size\<close> (lines 232 and 272); the model does the same. The
  test of line 237 parses as
  \<^verbatim>\<open>Rd_size != Rn_size && !((Rd_size == 4) ^ (Rd_size == 8))\<close>; the exclusive or of
  two booleans is their disequality.
\<close>

definition LiftBFI ::
  "host \<Rightarrow> cs_insn \<Rightarrow> LowLevelILFunction \<Rightarrow> fault + (bool \<times> LowLevelILFunction)" where
  "LiftBFI h instr il =
     (let detail = detail_arm64 instr in
      if op_count detail \<noteq> 4 then Inr (False, il)
      else
        let Rd = register_of h (operands detail 0);
            Rn = register_of h (operands detail 1);
            Rd_size = GetRegisterInfo_size h Rd;
            Rn_size = GetRegisterInfo_size h Rd;
            lsb = op_imm (operands detail 2);
            width = op_imm (operands detail 3)
        in
          if Rd_size \<noteq> Rn_size \<and> \<not> ((Rd_size = 4) \<noteq> (Rd_size = 8)) then Inr (False, il)
          else
            (case inclusion_mask Rd_size width lsb of
               Inl f \<Rightarrow> Inl f
             | Inr m \<Rightarrow>
                 let left = And Rd_size (Register Rd_size Rd) (Const Rd_size (NOT m));
                     right = And Rd_size
                               (ShiftLeft Rd_size (Register Rd_size Rn) (Const 1 lsb))
                               (Const Rd_size m)
                 in Inr (True,
                         AddInstruction (SetRegister Rd_size Rd (Or Rd_size left right)) il)))"

text \<open>
  In \<^verbatim>\<open>LiftROR\<close> the immediate is narrowed to \<^verbatim>\<open>uint32_t shift\<close> and widened
  again for \<^verbatim>\<open>Const\<close>.
\<close>

definition LiftROR :: "host \<Rightarrow> cs_insn \<Rightarrow> LowLevelILFunction \<Rightarrow> bool \<times> LowLevelILFunction" where
  "LiftROR h instr il =
     (let detail = detail_arm64 instr in
      if op_count detail \<noteq> 3 then (False, il)
      else
        let Rd = register_of h (operands detail 0);
            Rn = register_of h (operands detail 1);
            Rd_size = GetRegisterInfo_size h Rd;
            Rn_size = GetRegisterInfo_size h Rd
        in
          if Rd_size \<noteq> Rn_size then (False, il)
          else if op_type (operands detail 2) = ARM64_OP_REG then
            let Rm = register_of h (operands detail 2)
            in (True,
                AddInstruction
                  (SetRegister Rd_size Rd
                     (RotateRight Rd_size (Register Rd_size Rn) (Register Rd_size Rm))) il)
          else if op_type (operands detail 2) = ARM64_OP_IMM then
            let shift = (ucast (op_imm (operands detail 2)) :: 32 word)
            in (True,
                AddInstruction
                  (SetRegister Rd_size Rd
                     (RotateRight Rd_size (Register Rd_size Rn) (Const Rd_size (ucast shift)))) il)
          else (False, il))"

section \<open>The dispatch point\<close>

text \<open>
  The \<^verbatim>\<open>switch\<close> on \<^verbatim>\<open>instr->id\<close>, entered when \<open>count > 0\<close>; \<open>supported\<close>
  starts as false and stays so for every other mnemonic.
\<close>

definition dispatch ::
  "host \<Rightarrow> cs_insn \<Rightarrow> LowLevelILFunction \<Rightarrow> fault + (bool \<times> LowLevelILFunction)" where
  "dispatch h instr il =
     (case insn_id instr of
        ARM64_INS_CSINC \<Rightarrow> Inr (LiftCSINC h instr il)
      | ARM64_INS_UMULL \<Rightarrow> Inr (LiftUMULL h instr il)
      | ARM64_INS_CINC \<Rightarrow> Inr (LiftCINC h instr il)
      | ARM64_INS_BFI \<Rightarrow> LiftBFI h instr il
      | ARM64_INS_ROR \<Rightarrow> Inr (LiftROR h instr il)
      | ARM64_INS_other n \<Rightarrow> Inr (False, il))"

text \<open>
  \<^verbatim>\<open>GetInstructionLowLevelIL(data, addr, len, il)\<close> returns its boolean, the value
  it leaves in \<^verbatim>\<open>len\<close> and the IL. \<^verbatim>\<open>instr\<close> points to the first decoded
  instruction. When \<open>count = 0\<close> the switch is skipped and nothing was stored for
  \<^verbatim>\<open>instr\<close> to point to, yet line 341 reads \<^verbatim>\<open>instr->size\<close> outside the
  \<open>count > 0\<close> guards around it: that read is the fault
  \<open>InvalidInstructionRead\<close>.
\<close>

definition GetInstructionLowLevelIL ::
  "host \<Rightarrow> 8 word list \<Rightarrow> 64 word \<Rightarrow> nat \<Rightarrow> LowLevelILFunction
     \<Rightarrow> fault + (bool \<times> nat \<times> LowLevelILFunction)" where
  "GetInstructionLowLevelIL h data addr len il =
     (case cs_disasm h data len addr of
        [] \<Rightarrow> Inl InvalidInstructionRead
      | instr # rest \<Rightarrow>
          (case dispatch h instr il of
             Inl f \<Rightarrow> Inl f
           | Inr (supported, il') \<Rightarrow>
               let len' = unat (insn_size instr)
               in if \<not> supported
                  then Inr (base_GetInstructionLowLevelIL h data addr len' il')
                  else Inr (True, len', il')))"

section \<open>Value of an emitted expression\<close>

text \<open>
  Modelled from the spec: the host's evaluation of IL expressions, which is not
  part of the repository. The spec reads the emitted \<^verbatim>\<open>Rd(8) = Rn(4) * Rm(4)\<close> as
  an unsigned, widening multiply with no sign extension of either 4-byte source: a
  register read of \<open>n\<close> bytes is the unsigned value of the low \<open>n\<close> bytes of the
  register, a constant of \<open>n\<close> bytes likewise, and a multiply of \<open>n\<close> bytes is the
  product of its operand values kept to \<open>n\<close> bytes. Other expressions have no value
  here.
\<close>

fun il_value :: "(32 word \<Rightarrow> 64 word) \<Rightarrow> il_expr \<Rightarrow> 64 word option" where
  "il_value regs (Register n r) = Some (take_bit (8 * n) (regs r))"
| "il_value regs (Const n v) = Some (take_bit (8 * n) v)"
| "il_value regs (Mult n a b) =
     (case (il_value regs a, il_value regs b) of
        (Some x, Some y) \<Rightarrow> Some (take_bit (8 * n) (x * y))
      | _ \<Rightarrow> None)"
| "il_value regs e = None"

section \<open>Example inputs\<close>

text \<open>
  A small host used to run the definitions on concrete instructions: a catalog of
  six registers (the 4-byte \<open>w0\<close>, \<open>w1\<close>, \<open>w2\<close> and the 8-byte \<open>x0\<close>, \<open>x1\<close>, \<open>x2\<close>;
  the numbering is illustrative), a decoder that answers with the given
  instructions and a base lifter that emits nothing and reports four bytes.
\<close>

definition example_reg_name :: "32 word \<Rightarrow> string" where
  "example_reg_name r =
     (if r = 168 then ''w0'' else if r = 169 then ''w1'' else if r = 170 then ''w2''
      else if r = 199 then ''x0'' else if r = 200 then ''x1'' else if r = 201 then ''x2''
      else [])"

definition example_register_by_name :: "string \<Rightarrow> 32 word" where
  "example_register_by_name name =
     (if name = ''w0'' then 1 else if name = ''w1'' then 2 else if name = ''w2'' then 3
      else if name = ''x0'' then 34 else if name = ''x1'' then 35 else if name = ''x2'' then 36
      else 0)"

definition example_register_size :: "32 word \<Rightarrow> nat" where
  "example_register_size r =
     (if r = 1 \<or> r = 2 \<or> r = 3 then 4 else if r = 34 \<or> r = 35 \<or> r = 36 then 8 else 0)"

definition example_host :: "cs_insn list \<Rightarrow> host" where
  "example_host insns =
     \<lparr> cs_disasm = (\<lambda>data len addr. insns),
       cs_reg_name = example_reg_name,
       GetRegisterByName = example_register_by_name,
       GetRegisterInfo_size = example_register_size,
       base_GetInstructionLowLevelIL = (\<lambda>data addr len il. (True, 4, il)) \<rparr>"

definition reg_operand :: "32 word \<Rightarrow> cs_arm64_op" where
  "reg_operand r = \<lparr> op_type = ARM64_OP_REG, op_reg = r, op_imm = 0 \<rparr>"

definition imm_operand :: "64 word \<Rightarrow> cs_arm64_op" where
  "imm_operand v = \<lparr> op_type = ARM64_OP_IMM, op_reg = 0, op_imm = v \<rparr>"

definition other_operand :: "nat \<Rightarrow> cs_arm64_op" where
  "other_operand k = \<lparr> op_type = ARM64_OP_other k, op_reg = 0, op_imm = 0 \<rparr>"

text \<open>An operand array holding the given operands, the remaining slots zeroed.\<close>

definition operand_array :: "cs_arm64_op list \<Rightarrow> nat \<Rightarrow> cs_arm64_op" where
  "operand_array ops i = (if i < length ops then ops ! i else other_operand 0)"

definition example_insn :: "arm64_insn \<Rightarrow> arm64_cc \<Rightarrow> cs_arm64_op list \<Rightarrow> cs_insn" where
  "example_insn m c ops =
     \<lparr> insn_id = m, address = 0x1000, insn_size = 4,
       detail_arm64 = \<lparr> cc = c, op_count = of_nat (length ops),
                        operands = operand_array ops \<rparr> \<rparr>"

section \<open>Outcome predicates\<close>














section \<open>Properties\<close>

lemmas example_defs = example_host_def example_insn_def operand_array_def reg_operand_def
  imm_operand_def other_operand_def example_reg_name_def example_register_by_name_def
  example_register_size_def register_of_def AddInstruction_def MarkLabel_def

subsection \<open>Mask generation\<close>

lemma Ones_eq_mask:
  assumes "count \<le> LENGTH('a)"
  shows "(Ones count :: fault + 'a::len word) = Inr (mask count)"
proof (cases "count = LENGTH('a)")
  case True
  have "(NOT 0 :: 'a word) = mask LENGTH('a)"
    by simp
  with True show ?thesis
    by (simp add: Ones_def)
next
  case False
  with assms have lt: "count < LENGTH('a)"
    by simp
  have "NOT (push_bit count (NOT 0 :: 'a word)) = mask count"
    by (rule bit_word_eqI) (auto simp add: bit_simps)
  with False lt show ?thesis
    by (simp add: Ones_def)
qed



text \<open>
  C9. For a count equal to the bit width of the mask type, \<open>Ones\<close> returns the
  all-ones value through its special case, with no shift by the full width (which
  would be the fault \<open>UndefinedShift\<close>); and for every count from 0 to the bit
  width inclusive, \<open>Ones count\<close> is a value whose one-bits are exactly the \<open>count\<close>
  lowest bits.
\<close>

theorem Ones_contiguous_low_bits:
  assumes "count \<le> LENGTH('a::len)"
  shows "\<exists>w :: 'a word. Ones count = Inr w \<and> (\<forall>i. bit w i \<longleftrightarrow> i < count) \<and>
           (count = LENGTH('a) \<longrightarrow> w = NOT 0)"
proof -
  have "(Ones count :: fault + 'a word) = Inr (mask count)"
    using assms by (rule Ones_eq_mask)
  moreover have "bit (mask count :: 'a word) i \<longleftrightarrow> i < count" for i
    using assms by (auto simp add: bit_simps)
  moreover have "count = LENGTH('a) \<longrightarrow> (mask count :: 'a word) = NOT 0"
    by auto
  ultimately show ?thesis
    by blast
qed

theorem Ones_contiguous_low_bits_witness:
  "(64::nat) \<le> LENGTH(64) \<and> (Ones 64 :: fault + 64 word) = Inr 0xFFFFFFFFFFFFFFFF
    \<and> (32::nat) \<le> LENGTH(32) \<and> (Ones 32 :: fault + 32 word) = Inr 0xFFFFFFFF"
  using Ones_contiguous_low_bits [where 'a = 64 and count = 64]
    Ones_contiguous_low_bits [where 'a = 32 and count = 32]
  by auto

text \<open>
  C8, as stated: for a bitfield insert on an 8-byte register with lsb 4 and field
  width 8 the inclusion mask would be \<open>0x00000000000007F0\<close>. The code computes a
  different mask.
\<close>

theorem inclusion_mask_not_7F0:
  "inclusion_mask 8 8 4 \<noteq> Inr 0x00000000000007F0"
  by (simp add: inclusion_mask_def Ones_def shift_left_def mask_eq_exp_minus_1)

text \<open>
  C8, amended: for a bitfield insert on an 8-byte register with lsb 4 and field
  width 8 the inclusion mask is \<open>0x0000000000000FF0\<close>, that is 8 one-bits starting
  at bit 4, and \<open>Ones(8) << 4\<close> is \<open>0xFF0\<close>.
\<close>

theorem inclusion_mask_lsb4_width8:
  "inclusion_mask 8 8 4 = Inr 0x0000000000000FF0
   \<and> (0xFF0 :: 64 word) = push_bit 4 (mask 8)
   \<and> (Ones 8 :: fault + 64 word) = Inr 0xFF
   \<and> shift_left (0xFF :: 64 word) 4 = Inr 0xFF0"
  by (simp add: inclusion_mask_def Ones_def shift_left_def mask_eq_exp_minus_1)

subsection \<open>Condition codes\<close>

text \<open>
  C1. The claim has each ordinary condition code on a flag condition of its own,
  with LO on unsigned-lower and HI on unsigned-higher. In the code LO returns the
  flag condition of LS and HI returns that of HS, so \<open>LLFC_ULT\<close> and \<open>LLFC_UGT\<close>
  are never produced and the translation of the ordinary codes repeats values.
\<close>

theorem LiftCondition_unsigned_collision:
  "LiftCondition ARM64_CC_LO = LLFC_ULE \<and> LiftCondition ARM64_CC_LS = LLFC_ULE
   \<and> LiftCondition ARM64_CC_HI = LLFC_UGE \<and> LiftCondition ARM64_CC_HS = LLFC_UGE
   \<and> LiftCondition ARM64_CC_LO \<noteq> LLFC_ULT \<and> LiftCondition ARM64_CC_HI \<noteq> LLFC_UGT
   \<and> \<not> distinct (map LiftCondition ordinary_codes)"
  by (simp add: ordinary_codes_def)

subsection \<open>Conditional select increment\<close>

text \<open>
  C4. Given 3 operands, \<open>LiftCSINC\<close> returns false if and only if the condition
  code is invalid or both width inequalities hold at once (the width of Rd differs
  from that of Rn and the width of Rn differs from that of Rm); an instruction
  where only one of the two pairs mismatches is not rejected.
\<close>

theorem LiftCSINC_rejects_iff:
  assumes "op_count (detail_arm64 instr) = 3"
  shows "\<not> fst (LiftCSINC h instr il) \<longleftrightarrow>
           (cc (detail_arm64 instr) = ARM64_CC_INVALID \<or>
            (GetRegisterInfo_size h (register_of h (operands (detail_arm64 instr) 0))
               \<noteq> GetRegisterInfo_size h (register_of h (operands (detail_arm64 instr) 1)) \<and>
             GetRegisterInfo_size h (register_of h (operands (detail_arm64 instr) 1))
               \<noteq> GetRegisterInfo_size h (register_of h (operands (detail_arm64 instr) 2))))"
  using assms by (simp add: LiftCSINC_def Let_def)

theorem LiftCSINC_rejects_iff_witness:
  "op_count (detail_arm64 (example_insn ARM64_INS_CSINC ARM64_CC_EQ
        [reg_operand 168, reg_operand 200, reg_operand 201])) = 3
   \<and> example_register_size (example_register_by_name (example_reg_name 168)) \<noteq>
     example_register_size (example_register_by_name (example_reg_name 200))
   \<and> fst (LiftCSINC (example_host []) (example_insn ARM64_INS_CSINC ARM64_CC_EQ
        [reg_operand 168, reg_operand 200, reg_operand 201]) [])"
  using LiftCSINC_rejects_iff [where instr = "example_insn ARM64_INS_CSINC ARM64_CC_EQ
        [reg_operand 168, reg_operand 200, reg_operand 201]"
      and h = "example_host []" and il = "[]"]
  by (simp add: example_defs)

subsection \<open>Unsigned multiply long\<close>

lemma unat_low4_product:
  "unat (take_bit 64 (take_bit 32 (a :: 64 word) * take_bit 32 (b :: 64 word)))
     = unat (ucast a :: 32 word) * unat (ucast b :: 32 word)"
proof -
  have la: "unat (take_bit 32 a) < 2 ^ 32" and lb: "unat (take_bit 32 b) < 2 ^ 32"
    unfolding unsigned_take_bit_eq by (rule take_bit_nat_less_exp)+
  have "unat (take_bit 32 a) * unat (take_bit 32 b) < 2 ^ 32 * 2 ^ 32"
    using la lb by (rule mult_strict_mono) simp_all
  then have "unat (take_bit 32 a * take_bit 32 b) = unat (take_bit 32 a) * unat (take_bit 32 b)"
    by (simp add: unat_mult_lem [THEN iffD1])
  moreover have "unat (ucast a :: 32 word) = unat (take_bit 32 a)" for a :: "64 word"
    by (simp add: unsigned_ucast_eq unsigned_take_bit_eq)
  moreover have "take_bit 64 w = w" for w :: "64 word"
    by (rule take_bit_word_eq_self) simp
  ultimately show ?thesis
    by simp
qed

text \<open>
  C5. For every unsigned multiply long with exactly 3 operands the lifter accepts
  and adds one instruction, the assignment to the 8-byte destination of an 8-byte
  multiply of the two sources read at 4 bytes. Its value is the product of the two
  unsigned 4-byte source values, with no wrap and no sign extension; for
  \<open>Wn = 0xFFFFFFFF\<close> and \<open>Wm = 2\<close> it is \<open>0x1FFFFFFFE\<close>.
\<close>

theorem LiftUMULL_widening_product:
  assumes "op_count (detail_arm64 instr) = 3"
  shows "let Xd = register_of h (operands (detail_arm64 instr) 0);
             Wn = register_of h (operands (detail_arm64 instr) 1);
             Wm = register_of h (operands (detail_arm64 instr) 2);
             e = Mult 8 (Register 4 Wn) (Register 4 Wm)
         in LiftUMULL h instr il = (True, il @ [Instruction (SetRegister 8 Xd e)])
          \<and> (\<exists>v. il_value regs e = Some v \<and>
                unat v = unat (ucast (regs Wn) :: 32 word) * unat (ucast (regs Wm) :: 32 word))
          \<and> (regs Wn = 0xFFFFFFFF \<and> regs Wm = 2 \<longrightarrow> il_value regs e = Some 0x1FFFFFFFE)"
  using assms
  by (simp add: LiftUMULL_def Let_def AddInstruction_def unat_low4_product)

theorem LiftUMULL_widening_product_witness:
  "op_count (detail_arm64 (example_insn ARM64_INS_UMULL ARM64_CC_INVALID
        [reg_operand 199, reg_operand 169, reg_operand 170])) = 3
   \<and> LiftUMULL (example_host []) (example_insn ARM64_INS_UMULL ARM64_CC_INVALID
        [reg_operand 199, reg_operand 169, reg_operand 170]) []
      = (True, [Instruction (SetRegister 8 34 (Mult 8 (Register 4 2) (Register 4 3)))])
   \<and> il_value (\<lambda>r. if r = 2 then 0xFFFFFFFF else 2) (Mult 8 (Register 4 2) (Register 4 3))
      = Some 0x1FFFFFFFE"
  using LiftUMULL_widening_product [where instr = "example_insn ARM64_INS_UMULL ARM64_CC_INVALID
        [reg_operand 199, reg_operand 169, reg_operand 170]" and h = "example_host []"
        and il = "[]" and regs = "\<lambda>r. if r = 2 then 0xFFFFFFFF else 2"]
  by (simp add: example_defs Let_def)

subsection \<open>Bitfield insert\<close>

text \<open>
  C2. The claim has every 4-operand bitfield insert rejected unless Rd and Rn have
  the same width, 4 or 8 bytes. The code accepts \<open>bfi w0, x1, #4, #8\<close>, whose
  destination is 4 bytes wide and whose source is 8 bytes wide, and adds IL for it.
\<close>

theorem LiftBFI_accepts_width_mismatch:
  "LiftBFI (example_host [])
     (example_insn ARM64_INS_BFI ARM64_CC_INVALID
        [reg_operand 168, reg_operand 200, imm_operand 4, imm_operand 8]) []
   = Inr (True,
          [Instruction (SetRegister 4 1
             (Or 4 (And 4 (Register 4 1) (Const 4 (NOT 0xFF0)))
                   (And 4 (ShiftLeft 4 (Register 4 35) (Const 1 4)) (Const 4 0xFF0))))])
   \<and> example_register_size (example_register_by_name (example_reg_name 168)) = 4
   \<and> example_register_size (example_register_by_name (example_reg_name 200)) = 8"
  by (simp add: LiftBFI_def example_defs inclusion_mask_def Ones_def shift_left_def Let_def
      mask_eq_exp_minus_1)

subsection \<open>Rotate right\<close>

text \<open>
  C7. The claim has every 3-operand rotate right rejected unless Rd and Rn have the
  same width. The code accepts \<open>ror w0, x1, w2\<close>, whose destination is 4 bytes wide
  and whose source is 8 bytes wide, and adds IL for it.
\<close>

theorem LiftROR_accepts_width_mismatch:
  "LiftROR (example_host [])
     (example_insn ARM64_INS_ROR ARM64_CC_INVALID
        [reg_operand 168, reg_operand 200, reg_operand 170]) []
   = (True, [Instruction (SetRegister 4 1 (RotateRight 4 (Register 4 35) (Register 4 3)))])
   \<and> example_register_size (example_register_by_name (example_reg_name 168)) = 4
   \<and> example_register_size (example_register_by_name (example_reg_name 200)) = 8"
  by (simp add: LiftROR_def example_defs Let_def)

text \<open>
  C10. For every rotate right with exactly 3 operands whose third operand is
  neither a register nor an immediate, \<open>LiftROR\<close> returns false and leaves the IL
  as it was (the width test of the code never fails, so it always passes here),
  and the dispatch point then hands the instruction to the inherited lift with the
  decoded length.
\<close>

theorem LiftROR_other_operand_rejected:
  assumes "op_count (detail_arm64 instr) = 3"
    and "op_type (operands (detail_arm64 instr) 2) \<noteq> ARM64_OP_REG"
    and "op_type (operands (detail_arm64 instr) 2) \<noteq> ARM64_OP_IMM"
  shows "LiftROR h instr il = (False, il) \<and>
         (insn_id instr = ARM64_INS_ROR \<and> cs_disasm h data len addr = instr # rest \<longrightarrow>
            GetInstructionLowLevelIL h data addr len il =
              Inr (base_GetInstructionLowLevelIL h data addr (unat (insn_size instr)) il))"
  using assms by (simp add: LiftROR_def GetInstructionLowLevelIL_def dispatch_def Let_def)

theorem LiftROR_other_operand_rejected_witness:
  "op_count (detail_arm64 (example_insn ARM64_INS_ROR ARM64_CC_INVALID
        [reg_operand 168, reg_operand 169, other_operand 3])) = 3
   \<and> op_type (operands (detail_arm64 (example_insn ARM64_INS_ROR ARM64_CC_INVALID
        [reg_operand 168, reg_operand 169, other_operand 3])) 2) = ARM64_OP_other 3
   \<and> LiftROR (example_host []) (example_insn ARM64_INS_ROR ARM64_CC_INVALID
        [reg_operand 168, reg_operand 169, other_operand 3]) [] = (False, [])
   \<and> GetInstructionLowLevelIL
        (example_host [example_insn ARM64_INS_ROR ARM64_CC_INVALID
           [reg_operand 168, reg_operand 169, other_operand 3]]) [] 0x1000 4 []
      = Inr (True, 4, [])"
  using LiftROR_other_operand_rejected
      [where instr = "example_insn ARM64_INS_ROR ARM64_CC_INVALID
        [reg_operand 168, reg_operand 169, other_operand 3]"
      and h = "example_host [example_insn ARM64_INS_ROR ARM64_CC_INVALID
           [reg_operand 168, reg_operand 169, other_operand 3]]" and il = "[]"
      and data = "[]" and len = 4 and addr = "0x1000" and rest = "[]"]
    LiftROR_other_operand_rejected
      [where instr = "example_insn ARM64_INS_ROR ARM64_CC_INVALID
        [reg_operand 168, reg_operand 169, other_operand 3]"
      and h = "example_host []" and il = "[]"]
  by (simp add: example_defs)

subsection \<open>Atomicity of the lifters\<close>










subsection \<open>The dispatch point\<close>

lemma GetInstructionLowLevelIL_accepted:
  assumes "cs_disasm h data len addr = instr # rest"
    and "dispatch h instr il = Inr (True, il')"
  shows "GetInstructionLowLevelIL h data addr len il = Inr (True, unat (insn_size instr), il')"
  using assms by (simp add: GetInstructionLowLevelIL_def)

text \<open>
  C3. The claim has the length set to the consumed instruction size on every path
  and, when nothing could be decoded, the default lift run with the default
  length rather than with a value read from a decoded-instruction record that was
  never produced. In the code, when the decoder produces no instruction, the hook
  reads \<open>instr->size\<close> all the same, before the default lift is reached.
\<close>

theorem GetInstructionLowLevelIL_undecoded_read:
  "GetInstructionLowLevelIL (example_host []) data addr len il = Inl InvalidInstructionRead"
  by (simp add: GetInstructionLowLevelIL_def example_host_def)

end
